theory Spec2Isabelle
  imports Main
begin

section \<open>JavaScript values and errors\<close>

text \<open>
  The values a store holds and the serializer handles: JSON primitives, arrays, plain
  objects (property lists in enumeration order), and the three built-in objects the
  serializer knows. Numbers are the integers (versions, timestamps, counters); a
  \<open>Date\<close> carries its time value in milliseconds, \<open>None\<close> for an Invalid Date. A hole
  of a sparse array reads as \<open>undefined\<close> and is represented by \<open>JUndefined\<close>.
\<close>

datatype jsval =
    JUndefined
  | JNull
  | JBool bool
  | JNum int
  | JStr string
  | JArr "jsval list"
  | JObj "(string \<times> jsval) list"
  | JDate "int option"
  | JMap "(jsval \<times> jsval) list"
  | JSet "jsval list"

text \<open>
  What a \<open>throw\<close> carries: an \<open>Error\<close> with its message (the two the code constructs
  are \<open>Failed to deserialize data\<close> and \<open>Validation failed\<close>), the platform's own
  errors, and whatever a caller-supplied function throws or reports.
\<close>

datatype error =
    Error string
  | TypeError
  | RangeError
  | SyntaxError
  | QuotaExceededError
  | UserError string

section \<open>The serializer (src/core/serializer.ts)\<close>

text \<open>
  \<open>JSON.stringify\<close> and \<open>JSON.parse\<close> belong to the JavaScript engine. Their work
  splits in two: the walk over the value, which calls the repository's \<open>replacer\<close> and
  \<open>reviver\<close> and is modelled below, and the JSON text itself, which is the engine's
  own and is taken as a parameter together with the two \<open>Date\<close> operations the
  serializer uses. \<open>json\<close> is the syntax tree of a JSON text.
\<close>

datatype json =
    JsNull
  | JsBool bool
  | JsNum int
  | JsStr string
  | JsArr "json list"
  | JsObj "(string \<times> json) list"

text \<open>
  \<open>JSON_text\<close> is the text \<open>JSON.stringify\<close> writes for a tree, \<open>JSON_tree\<close> the
  tree \<open>JSON.parse\<close> reads (\<open>None\<close> for a SyntaxError), \<open>toISOString\<close> the ISO
  string of a valid time value, \<open>Date_value\<close> the time value \<open>new Date(x)\<close> gets.
\<close>

record platform =
  JSON_text :: "json \<Rightarrow> string"
  JSON_tree :: "string \<Rightarrow> json option"
  toISOString :: "int \<Rightarrow> string"
  Date_value :: "jsval \<Rightarrow> int option"

text \<open>\<open>ToString(i)\<close> of an array index, the key an element is visited under.\<close>

definition digit_char :: "nat \<Rightarrow> char" where
  "digit_char d =
     (case map_of (zip [0, 1, 2, 3, 4, 5, 6, 7, 8, 9] ''0123456789'') d of
        Some c \<Rightarrow> c
      | None \<Rightarrow> CHR ''?'')"

fun showNat :: "nat \<Rightarrow> string" where
  "showNat n = (if n < 10 then [digit_char n] else showNat (n div 10) @ [digit_char (n mod 10)])"

declare showNat.simps [simp del]

text \<open>
  \<open>replacer(this, key, value)\<close>. \<open>this_k\<close> is \<open>this[key]\<close>, the property before
  \<open>toJSON\<close> ran; \<open>v\<close> is the value after. \<open>toISOString\<close> throws a RangeError on an
  Invalid Date; \<open>Array.from(map.entries())\<close> is the array of the two-element arrays.
\<close>

definition replacer :: "platform \<Rightarrow> string \<Rightarrow> jsval \<Rightarrow> jsval \<Rightarrow> error + jsval" where
  "replacer P k this_k v =
     (let originalValue = (if k \<noteq> [] then this_k else v) in
      case originalValue of
        JDate d \<Rightarrow>
          (case d of
             None \<Rightarrow> Inl RangeError
           | Some t \<Rightarrow> Inr (JObj [(''__type'', JStr ''Date''), (''value'', JStr (toISOString P t))]))
      | JMap es \<Rightarrow>
          Inr (JObj [(''__type'', JStr ''Map''), (''value'', JArr (map (\<lambda>(a, b). JArr [a, b]) es))])
      | JSet xs \<Rightarrow> Inr (JObj [(''__type'', JStr ''Set''), (''value'', JArr xs)])
      | JUndefined \<Rightarrow> Inr (JObj [(''__type'', JStr ''undefined'')])
      | _ \<Rightarrow> Inr v)"

text \<open>
  The \<open>toJSON\<close> step of \<open>JSON.stringify\<close>: of the values here only a \<open>Date\<close> has the
  method (its ISO string, \<open>null\<close> when invalid).
\<close>

definition toJSON :: "platform \<Rightarrow> jsval \<Rightarrow> jsval" where
  "toJSON P v =
     (case v of
        JDate d \<Rightarrow> (case d of None \<Rightarrow> JNull | Some t \<Rightarrow> JStr (toISOString P t))
      | _ \<Rightarrow> v)"

text \<open>Results in order; the first exception ends the evaluation.\<close>

fun sequence :: "(error + 'a) list \<Rightarrow> error + 'a list" where
  "sequence [] = Inr []"
| "sequence (x # xs) =
     (case x of
        Inl e \<Rightarrow> Inl e
      | Inr y \<Rightarrow> (case sequence xs of Inl e \<Rightarrow> Inl e | Inr ys \<Rightarrow> Inr (y # ys)))"

text \<open>A measure for the walk: every value the walk visits next is lighter.\<close>

fun wt :: "jsval \<Rightarrow> nat" where
  "wt JUndefined = 2"
| "wt JNull = 1"
| "wt (JBool b) = 1"
| "wt (JNum n) = 1"
| "wt (JStr s) = 1"
| "wt (JArr xs) = 1 + sum_list (map wt xs)"
| "wt (JObj kvs) = 1 + sum_list (map (\<lambda>(k, v). wt v) kvs)"
| "wt (JDate d) = 2"
| "wt (JMap es) = 2 + sum_list (map (\<lambda>(a, b). 1 + wt a + wt b) es)"
| "wt (JSet xs) = 2 + sum_list (map wt xs)"

text \<open>The properties \<open>JSON.stringify\<close> visits in an array or a plain object, with their keys.\<close>

definition children :: "jsval \<Rightarrow> (string \<times> jsval) list" where
  "children r =
     (case r of
        JArr xs \<Rightarrow> map (\<lambda>i. (showNat i, xs ! i)) [0..<length xs]
      | JObj kvs \<Rightarrow> kvs
      | _ \<Rightarrow> [])"

text \<open>
  \<open>SerializeJSONProperty(key, holder)\<close> of \<open>JSON.stringify\<close> with \<open>v = holder[key]\<close>:
  \<open>toJSON\<close>, then the replacer, then the walk over what the replacer returned. The
  result \<open>None\<close> is \<open>undefined\<close>: such a property is left out of an object and written as
  \<open>null\<close> in an array. A \<open>Date\<close>, \<open>Map\<close> or \<open>Set\<close> that reached the writer would have no
  enumerable property and be written as \<open>{}\<close>.
\<close>

function SerializeJSONProperty :: "platform \<Rightarrow> string \<Rightarrow> jsval \<Rightarrow> error + json option" where
  "SerializeJSONProperty P k v =
     (case replacer P k v (toJSON P v) of
        Inl e \<Rightarrow> Inl e
      | Inr r \<Rightarrow>
          (case r of
             JUndefined \<Rightarrow> Inr None
           | JNull \<Rightarrow> Inr (Some JsNull)
           | JBool b \<Rightarrow> Inr (Some (JsBool b))
           | JNum n \<Rightarrow> Inr (Some (JsNum n))
           | JStr s \<Rightarrow> Inr (Some (JsStr s))
           | JArr xs \<Rightarrow>
               (case sequence (map (\<lambda>(i, x). SerializeJSONProperty P i x) (children r)) of
                  Inl e \<Rightarrow> Inl e
                | Inr ys \<Rightarrow> Inr (Some (JsArr (map (\<lambda>y. case y of None \<Rightarrow> JsNull | Some j \<Rightarrow> j) ys))))
           | JObj kvs \<Rightarrow>
               (case sequence (map (\<lambda>(p, x). SerializeJSONProperty P p x) (children r)) of
                  Inl e \<Rightarrow> Inl e
                | Inr ys \<Rightarrow>
                    Inr (Some (JsObj (concat (map (\<lambda>(p, y). case y of None \<Rightarrow> [] | Some j \<Rightarrow> [(p, j)])
                                              (zip (map fst kvs) ys))))))
           | _ \<Rightarrow> Inr (Some (JsObj []))))"
  by pat_completeness auto

lemma wt_member: "x \<in> set xs \<Longrightarrow> wt x \<le> sum_list (map wt xs)"
  by (induction xs) auto

lemma wt_obj_member: "(k, x) \<in> set kvs \<Longrightarrow> wt x \<le> sum_list (map (\<lambda>(k, v). wt v) kvs)"
  by (induction kvs) auto

lemma wt_pairs:
  "sum_list (map (wt \<circ> (\<lambda>(a, b). JArr [a, b])) es) = sum_list (map (\<lambda>(a, b). Suc (wt a + wt b)) es)"
  by (induction es) auto

lemma children_smaller:
  assumes "replacer P k v (toJSON P v) = Inr r" and "(p, x) \<in> set (children r)"
  shows "wt x < wt v"
proof (cases v)
  case (JArr xs)
  with assms show ?thesis
    by (auto simp: replacer_def toJSON_def children_def Let_def dest!: wt_member[OF nth_mem] split: if_splits) 
next
  case (JObj kvs)
  with assms show ?thesis
    by (auto simp: replacer_def toJSON_def children_def Let_def dest!: wt_obj_member split: if_splits)
next
  case (JDate d)
  with assms show ?thesis
    by (auto simp: replacer_def toJSON_def children_def Let_def split: if_splits option.splits)
next
  case (JMap es)
  with assms show ?thesis
    by (auto simp: replacer_def toJSON_def children_def Let_def wt_pairs split: if_splits)
next
  case (JSet xs)
  with assms show ?thesis
    by (auto simp: replacer_def toJSON_def children_def Let_def split: if_splits)
qed (use assms in \<open>auto simp: replacer_def toJSON_def children_def Let_def split: if_splits\<close>)

termination SerializeJSONProperty
  by (relation "measure (\<lambda>(P, k, v). wt v)") (auto dest: children_smaller)

declare SerializeJSONProperty.simps [simp del]


text \<open>
  \<open>defaultSerializer.serialize\<close>: the value is wrapped in \<open>{ __root: data }\<close> and
  walked under the key \<open>''\<close>. The walk of an object never yields \<open>undefined\<close>; were it
  to, the caller would get \<open>undefined\<close> for a string.
\<close>

definition serialize_default :: "platform \<Rightarrow> jsval \<Rightarrow> error + string" where
  "serialize_default P d =
     (let wrapped = JObj [(''__root'', d)] in
      case SerializeJSONProperty P [] wrapped of
        Inl e \<Rightarrow> Inl e
      | Inr None \<Rightarrow> Inr ''undefined''
      | Inr (Some t) \<Rightarrow> Inr (JSON_text P t))"

text \<open>Reading a property of a plain object: \<open>undefined\<close> when it has none of that name.\<close>

definition getProp :: "(string \<times> jsval) list \<Rightarrow> string \<Rightarrow> jsval" where
  "getProp kvs k = (case map_of kvs k of None \<Rightarrow> JUndefined | Some v \<Rightarrow> v)"

definition is_Object :: "jsval \<Rightarrow> bool" where
  "is_Object v =
     (case v of JArr _ \<Rightarrow> True | JObj _ \<Rightarrow> True | JDate _ \<Rightarrow> True | JMap _ \<Rightarrow> True
      | JSet _ \<Rightarrow> True | _ \<Rightarrow> False)"

text \<open>
  \<open>Map.prototype.set\<close> and \<open>Set.prototype.add\<close> compare keys with SameValueZero: a
  primitive is found again by its value; an object only by identity, and every object
  that \<open>JSON.parse\<close> builds is a new one.
\<close>

fun map_set :: "(jsval \<times> jsval) list \<Rightarrow> jsval \<Rightarrow> jsval \<Rightarrow> (jsval \<times> jsval) list" where
  "map_set [] k v = [(k, v)]"
| "map_set ((a, b) # es) k v =
     (if \<not> is_Object k \<and> a = k then (a, v) # es else (a, b) # map_set es k v)"

definition set_add :: "jsval list \<Rightarrow> jsval \<Rightarrow> jsval list" where
  "set_add xs x = (if \<not> is_Object x \<and> x \<in> set xs then xs else xs @ [x])"

text \<open>
  \<open>new Map(iterable)\<close> reads each item's properties \<open>0\<close> and \<open>1\<close>, and throws a
  TypeError on an item that is not an object or on a value that is not iterable.
\<close>

definition entry_of :: "jsval \<Rightarrow> error + jsval \<times> jsval" where
  "entry_of x =
     (case x of
        JArr ys \<Rightarrow> Inr (if 0 < length ys then ys ! 0 else JUndefined,
                        if 1 < length ys then ys ! 1 else JUndefined)
      | JObj kvs \<Rightarrow> Inr (getProp kvs ''0'', getProp kvs ''1'')
      | JDate _ \<Rightarrow> Inr (JUndefined, JUndefined)
      | JMap _ \<Rightarrow> Inr (JUndefined, JUndefined)
      | JSet _ \<Rightarrow> Inr (JUndefined, JUndefined)
      | _ \<Rightarrow> Inl TypeError)"

definition iterate :: "jsval \<Rightarrow> error + jsval list" where
  "iterate v =
     (case v of
        JArr xs \<Rightarrow> Inr xs
      | JStr s \<Rightarrow> Inr (map (\<lambda>c. JStr [c]) s)
      | JMap es \<Rightarrow> Inr (map (\<lambda>(a, b). JArr [a, b]) es)
      | JSet xs \<Rightarrow> Inr xs
      | _ \<Rightarrow> Inl TypeError)"

definition new_Map :: "jsval \<Rightarrow> error + jsval" where
  "new_Map v =
     (if v = JUndefined \<or> v = JNull then Inr (JMap [])
      else case iterate v of
             Inl e \<Rightarrow> Inl e
           | Inr xs \<Rightarrow>
               (case sequence (map entry_of xs) of
                  Inl e \<Rightarrow> Inl e
                | Inr es \<Rightarrow> Inr (JMap (foldl (\<lambda>m (a, b). map_set m a b) [] es))))"

definition new_Set :: "jsval \<Rightarrow> error + jsval" where
  "new_Set v =
     (if v = JUndefined \<or> v = JNull then Inr (JSet [])
      else case iterate v of
             Inl e \<Rightarrow> Inl e
           | Inr xs \<Rightarrow> Inr (JSet (foldl set_add [] xs)))"

definition new_Date :: "platform \<Rightarrow> jsval \<Rightarrow> jsval" where
  "new_Date P v = JDate (Date_value P v)"

text \<open>
  \<open>reviver(key, value)\<close>: \<open>'__type' in value\<close> holds for a plain object with such a
  property only; the \<open>switch\<close> compares the tag with the four strings.
\<close>

definition reviver :: "platform \<Rightarrow> jsval \<Rightarrow> error + jsval" where
  "reviver P v =
     (case v of
        JObj kvs \<Rightarrow>
          (if ''__type'' \<in> fst ` set kvs then
             (if getProp kvs ''__type'' = JStr ''Date'' then Inr (new_Date P (getProp kvs ''value''))
              else if getProp kvs ''__type'' = JStr ''Map'' then new_Map (getProp kvs ''value'')
              else if getProp kvs ''__type'' = JStr ''Set'' then new_Set (getProp kvs ''value'')
              else if getProp kvs ''__type'' = JStr ''undefined'' then Inr JUndefined
              else Inr v)
           else Inr v)
      | _ \<Rightarrow> Inr v)"

text \<open>
  \<open>InternalizeJSONProperty\<close> of \<open>JSON.parse\<close>: the children first, then the reviver on
  the value itself. A property whose revived value is \<open>undefined\<close> is deleted; in an
  array that leaves a hole.
\<close>

fun InternalizeJSONProperty :: "platform \<Rightarrow> json \<Rightarrow> error + jsval" where
  "InternalizeJSONProperty P JsNull = reviver P JNull"
| "InternalizeJSONProperty P (JsBool b) = reviver P (JBool b)"
| "InternalizeJSONProperty P (JsNum n) = reviver P (JNum n)"
| "InternalizeJSONProperty P (JsStr s) = reviver P (JStr s)"
| "InternalizeJSONProperty P (JsArr xs) =
     (case sequence (map (InternalizeJSONProperty P) xs) of
        Inl e \<Rightarrow> Inl e
      | Inr ys \<Rightarrow> reviver P (JArr ys))"
| "InternalizeJSONProperty P (JsObj kvs) =
     (case sequence (map (\<lambda>(k, x). InternalizeJSONProperty P x) kvs) of
        Inl e \<Rightarrow> Inl e
      | Inr ys \<Rightarrow> reviver P (JObj (filter (\<lambda>(k, y). y \<noteq> JUndefined) (zip (map fst kvs) ys))))"

text \<open>
  \<open>defaultSerializer.deserialize\<close>: whatever is thrown inside the \<open>try\<close> becomes
  \<open>Error('Failed to deserialize data')\<close>; the root is unwrapped when the parsed value
  is an object with a \<open>__root\<close> property.
\<close>

definition deserialize_default :: "platform \<Rightarrow> string \<Rightarrow> error + jsval" where
  "deserialize_default P text =
     (case JSON_tree P text of
        None \<Rightarrow> Inl (Error ''Failed to deserialize data'')
      | Some t \<Rightarrow>
          (case InternalizeJSONProperty P t of
             Inl e \<Rightarrow> Inl (Error ''Failed to deserialize data'')
           | Inr parsed \<Rightarrow>
               (case parsed of
                  JObj kvs \<Rightarrow> Inr (if ''__root'' \<in> fst ` set kvs then getProp kvs ''__root'' else parsed)
                | _ \<Rightarrow> Inr parsed)))"

section \<open>The store: types (src/types/index.ts)\<close>

record ValidationResult =
  success :: bool
  data :: jsval
  error :: "error option"

text \<open>
  A caller-supplied function (schema, migration, error callback, subscriber) either
  returns or throws; it is modelled as a function of its arguments into
  \<open>error + result\<close>, so it neither reads nor writes the store it is called from.
  \<open>safeParse\<close> is optional.
\<close>

record SchemaValidator =
  parse :: "jsval \<Rightarrow> error + jsval"
  safeParse :: "(jsval \<Rightarrow> error + ValidationResult) option"

text \<open>
  \<open>StoredData<T>\<close>: the envelope the store persists, with the three optional numeric
  fields as \<open>int option\<close>.
\<close>

record StoredData =
  "value" :: jsval
  version :: "int option"
  timestamp :: "int option"
  expiresAt :: "int option"

record Serializer =
  serialize :: "jsval \<Rightarrow> error + string"
  deserialize :: "string \<Rightarrow> error + jsval"

definition defaultSerializer :: "platform \<Rightarrow> Serializer" where
  "defaultSerializer P = \<lparr>serialize = serialize_default P, deserialize = deserialize_default P\<rparr>"

text \<open>
  \<open>StoreOptions<T>\<close>. \<open>version_opt\<close> is the option \<open>version\<close> (the envelope has a
  field of that name). An omitted \<open>defaultValue\<close> is \<open>JUndefined\<close>. The options
  \<open>storageType\<close>, \<open>debounce\<close> and \<open>throttle\<close> are left out: the model is the store
  over one backend with neither delay, where \<open>set\<close> is \<open>_setInternal\<close> itself
  (\<open>setInternal\<close> below).
\<close>

record StoreOptions =
  key :: string
  schema :: SchemaValidator
  version_opt :: "int option"
  migrate :: "(jsval \<Rightarrow> error + jsval) option"
  ttl :: "int option"
  defaultValue :: jsval
  onValidationError :: "(error option \<Rightarrow> string \<Rightarrow> error + unit) option"
  serializer :: Serializer

text \<open>
  What an operation can be seen to do besides changing the backend: the calls it makes
  to caller-supplied functions and to the console, in order.
\<close>

datatype event =
    OnValidationError "error option" string
  | Callback nat jsval
  | Migrate jsval
  | ConsoleWarn string
  | ConsoleError string

text \<open>
  The state an operation runs in: the backend's items (\<open>getItem\<close> is the lookup),
  which writes the backend accepts (\<open>setItem\<close> throws \<open>QuotaExceededError\<close> on the
  others), the clock \<open>Date.now()\<close>, the subscriber set in insertion order, and the
  events so far. The clock stands still while one operation runs.
\<close>

record store_state =
  storage :: "string \<rightharpoonup> string"
  accepts :: "string \<Rightarrow> string \<Rightarrow> bool"
  now :: int
  updateCallbacks :: "(jsval \<Rightarrow> error + unit) list"
  trace :: "event list"


section \<open>The store: operations (src/core/store.ts)\<close>

definition emit :: "event \<Rightarrow> store_state \<Rightarrow> store_state" where
  "emit e s = s\<lparr>trace := trace s @ [e]\<rparr>"

definition removeItem :: "string \<Rightarrow> store_state \<Rightarrow> store_state" where
  "removeItem k s = s\<lparr>storage := (storage s)(k := None)\<rparr>"

definition setItem :: "string \<Rightarrow> string \<Rightarrow> store_state \<Rightarrow> (error + unit) \<times> store_state" where
  "setItem k v s =
     (if accepts s k v then (Inr (), s\<lparr>storage := (storage s)(k \<mapsto> v)\<rparr>)
      else (Inl QuotaExceededError, s))"

text \<open>\<open>defaultValue ?? null\<close>\<close>

definition default_or_null :: "StoreOptions \<Rightarrow> jsval" where
  "default_or_null cfg =
     (if defaultValue cfg = JUndefined \<or> defaultValue cfg = JNull then JNull
      else defaultValue cfg)"

text \<open>\<open>if (onValidationError) { onValidationError(error, key); }\<close>\<close>

definition report :: "StoreOptions \<Rightarrow> error option \<Rightarrow> store_state \<Rightarrow> (error + unit) \<times> store_state" where
  "report cfg e s =
     (case onValidationError cfg of
        None \<Rightarrow> (Inr (), s)
      | Some h \<Rightarrow> (h e (key cfg), emit (OnValidationError e (key cfg)) s))"

text \<open>The body of the \<open>try\<close> in \<open>validate\<close>, and \<open>validate\<close> with its \<open>catch\<close>.\<close>

definition validate_try :: "StoreOptions \<Rightarrow> jsval \<Rightarrow> store_state \<Rightarrow> (error + jsval) \<times> store_state" where
  "validate_try cfg d s =
     (case safeParse (schema cfg) of
        Some sp \<Rightarrow>
          (case sp d of
             Inl e \<Rightarrow> (Inl e, s)
           | Inr result \<Rightarrow>
               if success result \<and> data result \<noteq> JUndefined then (Inr (data result), s)
               else (case report cfg (error result) s of
                       (Inl e, s') \<Rightarrow> (Inl e, s')
                     | (Inr _, s') \<Rightarrow> (Inr JNull, s')))
      | None \<Rightarrow> (parse (schema cfg) d, s))"

definition validate :: "StoreOptions \<Rightarrow> jsval \<Rightarrow> store_state \<Rightarrow> (error + jsval) \<times> store_state" where
  "validate cfg d s =
     (case validate_try cfg d s of
        (Inr v, s') \<Rightarrow> (Inr v, s')
      | (Inl e, s') \<Rightarrow>
          (case report cfg (Some e) s' of
             (Inl e', s'') \<Rightarrow> (Inl e', s'')
           | (Inr _, s'') \<Rightarrow> (Inr JNull, s'')))"

text \<open>
  The cast \<open>as StoredData<T>\<close> and the property reads behind it. Reading a property of
  \<open>null\<close> or \<open>undefined\<close> throws a TypeError; any other value that is not a plain
  object has none of the four properties. A field that holds anything but a number is
  outside the declared type and is read as absent.
\<close>

definition num_field :: "(string \<times> jsval) list \<Rightarrow> string \<Rightarrow> int option" where
  "num_field kvs k = (case getProp kvs k of JNum n \<Rightarrow> Some n | _ \<Rightarrow> None)"

definition as_StoredData :: "jsval \<Rightarrow> error + StoredData" where
  "as_StoredData v =
     (case v of
        JUndefined \<Rightarrow> Inl TypeError
      | JNull \<Rightarrow> Inl TypeError
      | JObj kvs \<Rightarrow>
          Inr \<lparr>value = getProp kvs ''value'', version = num_field kvs ''version'',
               timestamp = num_field kvs ''timestamp'', expiresAt = num_field kvs ''expiresAt''\<rparr>
      | _ \<Rightarrow> Inr \<lparr>value = JUndefined, version = None, timestamp = None, expiresAt = None\<rparr>)"

text \<open>\<open>serializer.deserialize(raw) as StoredData<T>\<close>\<close>

definition readStoredData :: "StoreOptions \<Rightarrow> string \<Rightarrow> error + StoredData" where
  "readStoredData cfg raw =
     (case deserialize (serializer cfg) raw of
        Inl e \<Rightarrow> Inl e
      | Inr parsed \<Rightarrow> as_StoredData parsed)"

definition num_or_undefined :: "int option \<Rightarrow> jsval" where
  "num_or_undefined x = (case x of None \<Rightarrow> JUndefined | Some n \<Rightarrow> JNum n)"

text \<open>A number used as a condition: \<open>undefined\<close> and \<open>0\<close> are falsy.\<close>

definition truthy_num :: "int option \<Rightarrow> bool" where
  "truthy_num x = (case x of None \<Rightarrow> False | Some n \<Rightarrow> n \<noteq> 0)"

definition isExpired :: "StoredData \<Rightarrow> store_state \<Rightarrow> bool" where
  "isExpired storedData s =
     (if \<not> truthy_num (expiresAt storedData) then False
      else now s > the (expiresAt storedData))"

definition migrateData :: "StoreOptions \<Rightarrow> StoredData \<Rightarrow> store_state \<Rightarrow> (error + jsval) \<times> store_state" where
  "migrateData cfg storedData s =
     (if \<not> truthy_num (version_opt cfg) \<or> migrate cfg = None then (Inr (value storedData), s)
      else if version storedData = version_opt cfg then (Inr (value storedData), s)
      else if truthy_num (version storedData) \<and> the (version storedData) > the (version_opt cfg)
        then (Inr (value storedData), emit (ConsoleWarn ''Stored data version is newer'') s)
      else
        (case the (migrate cfg) (value storedData) of
           Inr v \<Rightarrow> (Inr v, emit (Migrate (value storedData)) s)
         | Inl e \<Rightarrow>
             (case report cfg (Some e)
                     (emit (ConsoleError ''Migration failed'') (emit (Migrate (value storedData)) s)) of
                (Inl e', s') \<Rightarrow> (Inl e', s')
              | (Inr _, s') \<Rightarrow> (Inr JNull, s'))))"

text \<open>
  \<open>updateCallbacks.forEach\<close>: the callbacks in insertion order, each with its position.
  A step that throws ends the loop with that exception.
\<close>

fun forEach :: "(nat \<Rightarrow> 'a \<Rightarrow> store_state \<Rightarrow> (error + unit) \<times> store_state)
    \<Rightarrow> nat \<Rightarrow> 'a list \<Rightarrow> store_state \<Rightarrow> (error + unit) \<times> store_state" where
  "forEach f i [] s = (Inr (), s)"
| "forEach f i (x # xs) s =
     (case f i x s of
        (Inl e, s') \<Rightarrow> (Inl e, s')
      | (Inr _, s') \<Rightarrow> forEach f (Suc i) xs s')"

text \<open>The loop body of \<open>notifyCallbacks\<close>: the call inside its \<open>try\<close>/\<open>catch\<close>.\<close>

definition notifyOne :: "jsval \<Rightarrow> nat \<Rightarrow> (jsval \<Rightarrow> error + unit) \<Rightarrow> store_state
    \<Rightarrow> (error + unit) \<times> store_state" where
  "notifyOne v i callback s =
     (case callback v of
        Inr _ \<Rightarrow> (Inr (), emit (Callback i v) s)
      | Inl e \<Rightarrow> (Inr (), emit (ConsoleError ''Update callback error'') (emit (Callback i v) s)))"

definition notifyCallbacks :: "jsval \<Rightarrow> store_state \<Rightarrow> (error + unit) \<times> store_state" where
  "notifyCallbacks v s = forEach (notifyOne v) 0 (updateCallbacks s) s"

text \<open>
  The envelope \<open>_setInternal\<close> builds at time \<open>t\<close>: the object literal
  \<open>{ value, version, timestamp }\<close>, with \<open>expiresAt\<close> added when \<open>ttl\<close> is truthy.
\<close>

definition newStoredData :: "StoreOptions \<Rightarrow> jsval \<Rightarrow> int \<Rightarrow> jsval" where
  "newStoredData cfg validatedData t =
     JObj ([(''value'', validatedData),
            (''version'', num_or_undefined (version_opt cfg)),
            (''timestamp'', JNum t)]
           @ (if truthy_num (ttl cfg) then [(''expiresAt'', JNum (t + the (ttl cfg)))] else []))"

text \<open>The body of the \<open>try\<close> in \<open>_setInternal\<close>, and \<open>_setInternal\<close> with its \<open>catch\<close>.\<close>

definition setInternal_try :: "StoreOptions \<Rightarrow> jsval \<Rightarrow> store_state \<Rightarrow> (error + unit) \<times> store_state" where
  "setInternal_try cfg d s =
     (case validate cfg d s of
        (Inl e, s1) \<Rightarrow> (Inl e, s1)
      | (Inr validatedData, s1) \<Rightarrow>
          if validatedData = JNull then (Inl (Error ''Validation failed''), s1)
          else
            (let storedData = newStoredData cfg validatedData (now s1)
             in case serialize (serializer cfg) storedData of
                  Inl e \<Rightarrow> (Inl e, s1)
                | Inr serialized \<Rightarrow>
                    (case setItem (key cfg) serialized s1 of
                       (Inl e, s2) \<Rightarrow> (Inl e, s2)
                     | (Inr _, s2) \<Rightarrow> notifyCallbacks validatedData s2)))"

definition setInternal :: "StoreOptions \<Rightarrow> jsval \<Rightarrow> store_state \<Rightarrow> (error + unit) \<times> store_state" where
  "setInternal cfg d s =
     (case setInternal_try cfg d s of
        (Inl e, s') \<Rightarrow> (Inl e, emit (ConsoleError ''Failed to set value'') s')
      | (Inr u, s') \<Rightarrow> (Inr u, s'))"

text \<open>The body of the \<open>try\<close> in \<open>get\<close>, and \<open>get\<close> with its \<open>catch\<close>.\<close>

definition get_try :: "StoreOptions \<Rightarrow> store_state \<Rightarrow> (error + jsval) \<times> store_state" where
  "get_try cfg s =
     (case storage s (key cfg) of
        None \<Rightarrow> (Inr (default_or_null cfg), s)
      | Some raw \<Rightarrow>
          if raw = [] then (Inr (default_or_null cfg), s)
          else
            (case readStoredData cfg raw of
               Inl e \<Rightarrow> (Inl e, s)
             | Inr storedData \<Rightarrow>
                 if isExpired storedData s
                 then (Inr (default_or_null cfg), removeItem (key cfg) s)
                 else
                   (case migrateData cfg storedData s of
                      (Inl e, s1) \<Rightarrow> (Inl e, s1)
                    | (Inr v, s1) \<Rightarrow>
                        if v = JNull then (Inr (default_or_null cfg), s1)
                        else
                          (case validate cfg v s1 of
                             (Inl e, s2) \<Rightarrow> (Inl e, s2)
                           | (Inr v', s2) \<Rightarrow>
                               if v' = JNull
                               then (Inr (default_or_null cfg), removeItem (key cfg) s2)
                               else if truthy_num (version_opt cfg)
                                       \<and> version storedData \<noteq> version_opt cfg
                               then (case setInternal cfg v' s2 of
                                       (Inl e, s3) \<Rightarrow> (Inl e, s3)
                                     | (Inr _, s3) \<Rightarrow> (Inr v', s3))
                               else (Inr v', s2)))))"

definition get :: "StoreOptions \<Rightarrow> store_state \<Rightarrow> (error + jsval) \<times> store_state" where
  "get cfg s =
     (case get_try cfg s of
        (Inr v, s') \<Rightarrow> (Inr v, s')
      | (Inl e, s') \<Rightarrow>
          (case report cfg (Some e) (emit (ConsoleError ''Failed to get value'') s') of
             (Inl e', s'') \<Rightarrow> (Inl e', s'')
           | (Inr _, s'') \<Rightarrow> (Inr (default_or_null cfg), s'')))"


definition has :: "StoreOptions \<Rightarrow> store_state \<Rightarrow> (error + bool) \<times> store_state" where
  "has cfg s =
     (case get cfg s of
        (Inl e, s') \<Rightarrow> (Inl e, s')
      | (Inr v, s') \<Rightarrow> (Inr (v \<noteq> JNull), s'))"



section \<open>Observing an operation\<close>

text \<open>
  What the events of a trace say: the subscriber calls (position and value) and the
  values the migration function was called with. \<open>notified s s'\<close> are the subscriber
  calls made between two states, \<open>everyone s v\<close> is one call with \<open>v\<close> to each
  subscriber, in order.
\<close>

fun callbacks_of :: "event list \<Rightarrow> (nat \<times> jsval) list" where
  "callbacks_of [] = []"
| "callbacks_of (Callback i v # es) = (i, v) # callbacks_of es"
| "callbacks_of (e # es) = callbacks_of es"

fun migrate_calls :: "event list \<Rightarrow> jsval list" where
  "migrate_calls [] = []"
| "migrate_calls (Migrate v # es) = v # migrate_calls es"
| "migrate_calls (e # es) = migrate_calls es"

definition notified :: "store_state \<Rightarrow> store_state \<Rightarrow> (nat \<times> jsval) list" where
  "notified s s' = drop (length (callbacks_of (trace s))) (callbacks_of (trace s'))"


text \<open>A step from \<open>s\<close> to \<open>s'\<close> that touched neither the backend nor a subscriber.\<close>

definition quiet :: "store_state \<Rightarrow> store_state \<Rightarrow> bool" where
  "quiet s s' \<longleftrightarrow>
     storage s' = storage s \<and> accepts s' = accepts s \<and> now s' = now s
     \<and> updateCallbacks s' = updateCallbacks s
     \<and> callbacks_of (trace s') = callbacks_of (trace s)"


section \<open>Round trip: vocabulary\<close>











section \<open>A reference platform\<close>

text \<open>
  An instance of the platform for running the code on concrete inputs: a JSON writer
  and reader for integers, strings, arrays and objects, and ISO dates of the years 0000
  to 9999. The reader gives a repeated member name its last value, as \<open>JSON.parse\<close> does.
\<close>

definition hex_char :: "nat \<Rightarrow> char" where
  "hex_char d = (if d < 10 then char_of (48 + d) else char_of (87 + d))"

definition escape_char :: "char \<Rightarrow> string" where
  "escape_char c =
     (if c = CHR 0x22 then [CHR 0x5C, CHR 0x22]
      else if c = CHR 0x5C then [CHR 0x5C, CHR 0x5C]
      else if c = CHR 0x08 then [CHR 0x5C, CHR ''b'']
      else if c = CHR 0x09 then [CHR 0x5C, CHR ''t'']
      else if c = CHR 0x0A then [CHR 0x5C, CHR ''n'']
      else if c = CHR 0x0C then [CHR 0x5C, CHR ''f'']
      else if c = CHR 0x0D then [CHR 0x5C, CHR ''r'']
      else if of_char c < (32::nat)
        then [CHR 0x5C, CHR ''u'', CHR ''0'', CHR ''0'',
              hex_char (of_char c div 16), hex_char (of_char c mod 16)]
      else [c])"

definition quote :: "string \<Rightarrow> string" where
  "quote s = CHR 0x22 # concat (map escape_char s) @ [CHR 0x22]"

definition showInt :: "int \<Rightarrow> string" where
  "showInt n = (if n < 0 then CHR ''-'' # showNat (nat (- n)) else showNat (nat n))"

fun join :: "string \<Rightarrow> string list \<Rightarrow> string" where
  "join sep [] = []"
| "join sep [x] = x"
| "join sep (x # y # ys) = x @ sep @ join sep (y # ys)"

fun write_json :: "json \<Rightarrow> string" where
  "write_json JsNull = ''null''"
| "write_json (JsBool b) = (if b then ''true'' else ''false'')"
| "write_json (JsNum n) = showInt n"
| "write_json (JsStr s) = quote s"
| "write_json (JsArr xs) = ''['' @ join '','' (map write_json xs) @ '']''"
| "write_json (JsObj kvs) =
     ''{'' @ join '','' (map (\<lambda>(k, v). quote k @ '':'' @ write_json v) kvs) @ ''}''"

definition is_ws :: "char \<Rightarrow> bool" where
  "is_ws c = (c = CHR '' '' \<or> c = CHR 0x09 \<or> c = CHR 0x0A \<or> c = CHR 0x0D)"

definition is_digit :: "char \<Rightarrow> bool" where
  "is_digit c = (c \<in> set ''0123456789'')"

definition digit_val :: "char \<Rightarrow> nat" where
  "digit_val c =
     (case map_of (zip ''0123456789'' [0, 1, 2, 3, 4, 5, 6, 7, 8, 9]) c of
        Some n \<Rightarrow> n
      | None \<Rightarrow> 0)"

definition hex_val :: "char \<Rightarrow> nat option" where
  "hex_val c =
     (let n = (of_char c :: nat) in
      if 48 \<le> n \<and> n \<le> 57 then Some (n - 48)
      else if 97 \<le> n \<and> n \<le> 102 then Some (n - 87)
      else if 65 \<le> n \<and> n \<le> 70 then Some (n - 55)
      else None)"

definition digits_val :: "string \<Rightarrow> nat option" where
  "digits_val ds =
     (if ds \<noteq> [] \<and> list_all is_digit ds
      then Some (foldl (\<lambda>a d. 10 * a + digit_val d) 0 ds) else None)"

definition strip :: "string \<Rightarrow> string \<Rightarrow> string option" where
  "strip p cs = (if take (length p) cs = p then Some (drop (length p) cs) else None)"

text \<open>The characters of a string literal after its opening quote, and what follows it.\<close>

fun read_string :: "string \<Rightarrow> (string \<times> string) option" where
  "read_string [] = None"
| "read_string (c # cs) =
     (if c = CHR 0x22 then Some ([], cs)
      else if c = CHR 0x5C then
        (case cs of
           [] \<Rightarrow> None
         | e # r \<Rightarrow>
             (if e = CHR ''u'' then
                (case r of
                   h1 # h2 # h3 # h4 # r' \<Rightarrow>
                     (case (hex_val h1, hex_val h2, hex_val h3, hex_val h4) of
                        (Some a, Some b, Some c', Some d) \<Rightarrow>
                          (if a = 0 \<and> b = 0 then
                             (case read_string r' of
                                None \<Rightarrow> None
                              | Some (s, rest) \<Rightarrow> Some (char_of (16 * c' + d) # s, rest))
                           else None)
                      | _ \<Rightarrow> None)
                 | _ \<Rightarrow> None)
              else
                (case (if e = CHR 0x22 \<or> e = CHR 0x5C \<or> e = CHR ''/'' then Some e
                       else if e = CHR ''b'' then Some (CHR 0x08)
                       else if e = CHR ''t'' then Some (CHR 0x09)
                       else if e = CHR ''n'' then Some (CHR 0x0A)
                       else if e = CHR ''f'' then Some (CHR 0x0C)
                       else if e = CHR ''r'' then Some (CHR 0x0D)
                       else None) of
                   None \<Rightarrow> None
                 | Some x \<Rightarrow>
                     (case read_string r of
                        None \<Rightarrow> None
                      | Some (s, rest) \<Rightarrow> Some (x # s, rest)))))
      else if of_char c < (32::nat) then None
      else (case read_string cs of
              None \<Rightarrow> None
            | Some (s, rest) \<Rightarrow> Some (c # s, rest)))"

definition read_number :: "string \<Rightarrow> (json \<times> string) option" where
  "read_number cs =
     (let neg = (cs \<noteq> [] \<and> hd cs = CHR ''-'');
          body = (if neg then tl cs else cs);
          ds = takeWhile is_digit body;
          rest = dropWhile is_digit body
      in if ds = [] \<or> (1 < length ds \<and> hd ds = CHR ''0'') then None
         else if rest \<noteq> [] \<and> (hd rest = CHR ''.'' \<or> hd rest = CHR ''e'' \<or> hd rest = CHR ''E'') then None
         else Some (JsNum ((if neg then - 1 else 1) * int (the (digits_val ds))), rest))"

fun obj_put :: "(string \<times> json) list \<Rightarrow> string \<Rightarrow> json \<Rightarrow> (string \<times> json) list" where
  "obj_put [] k v = [(k, v)]"
| "obj_put ((a, b) # kvs) k v = (if a = k then (a, v) # kvs else (a, b) # obj_put kvs k v)"

fun read_value :: "nat \<Rightarrow> string \<Rightarrow> (json \<times> string) option"
  and read_elements :: "nat \<Rightarrow> json list \<Rightarrow> string \<Rightarrow> (json \<times> string) option"
  and read_members :: "nat \<Rightarrow> (string \<times> json) list \<Rightarrow> string \<Rightarrow> (json \<times> string) option" where
  "read_value 0 cs = None"
| "read_value (Suc n) cs =
     (case dropWhile is_ws cs of
        [] \<Rightarrow> None
      | c # r \<Rightarrow>
          if c = CHR ''{'' then
            (case dropWhile is_ws r of
               [] \<Rightarrow> None
             | c' # r' \<Rightarrow> if c' = CHR ''}'' then Some (JsObj [], r') else read_members n [] (c' # r'))
          else if c = CHR ''['' then
            (case dropWhile is_ws r of
               [] \<Rightarrow> None
             | c' # r' \<Rightarrow> if c' = CHR '']'' then Some (JsArr [], r') else read_elements n [] (c' # r'))
          else if c = CHR 0x22 then
            (case read_string r of None \<Rightarrow> None | Some (s, rest) \<Rightarrow> Some (JsStr s, rest))
          else if c = CHR ''n'' then
            (case strip ''ull'' r of None \<Rightarrow> None | Some rest \<Rightarrow> Some (JsNull, rest))
          else if c = CHR ''t'' then
            (case strip ''rue'' r of None \<Rightarrow> None | Some rest \<Rightarrow> Some (JsBool True, rest))
          else if c = CHR ''f'' then
            (case strip ''alse'' r of None \<Rightarrow> None | Some rest \<Rightarrow> Some (JsBool False, rest))
          else read_number (c # r))"
| "read_elements 0 acc cs = None"
| "read_elements (Suc n) acc cs =
     (case read_value n cs of
        None \<Rightarrow> None
      | Some (v, rest) \<Rightarrow>
          (case dropWhile is_ws rest of
             [] \<Rightarrow> None
           | c # r \<Rightarrow>
               if c = CHR '','' then read_elements n (acc @ [v]) r
               else if c = CHR '']'' then Some (JsArr (acc @ [v]), r)
               else None))"
| "read_members 0 acc cs = None"
| "read_members (Suc n) acc cs =
     (case dropWhile is_ws cs of
        [] \<Rightarrow> None
      | q # r0 \<Rightarrow>
          if q \<noteq> CHR 0x22 then None
          else
            (case read_string r0 of
               None \<Rightarrow> None
             | Some (k, r1) \<Rightarrow>
                 (case dropWhile is_ws r1 of
                    [] \<Rightarrow> None
                  | c # r2 \<Rightarrow>
                      if c \<noteq> CHR '':'' then None
                      else
                        (case read_value n r2 of
                           None \<Rightarrow> None
                         | Some (v, rest) \<Rightarrow>
                             (case dropWhile is_ws rest of
                                [] \<Rightarrow> None
                              | c' # r3 \<Rightarrow>
                                  if c' = CHR '','' then read_members n (obj_put acc k v) r3
                                  else if c' = CHR ''}'' then Some (JsObj (obj_put acc k v), r3)
                                  else None)))))"

definition read_json :: "string \<Rightarrow> json option" where
  "read_json cs =
     (case read_value (2 * length cs + 2) cs of
        None \<Rightarrow> None
      | Some (t, rest) \<Rightarrow> if dropWhile is_ws rest = [] then Some t else None)"


text \<open>Days since 1970-01-01 and the civil date (proleptic Gregorian calendar).\<close>

definition civil_from_days :: "int \<Rightarrow> int \<times> int \<times> int" where
  "civil_from_days z0 =
     (let z = z0 + 719468;
          era = z div 146097;
          doe = z - era * 146097;
          yoe = (doe - doe div 1460 + doe div 36524 - doe div 146096) div 365;
          y = yoe + era * 400;
          doy = doe - (365 * yoe + yoe div 4 - yoe div 100);
          mp = (5 * doy + 2) div 153;
          d = doy - (153 * mp + 2) div 5 + 1;
          m = (if mp < 10 then mp + 3 else mp - 9)
      in (if m \<le> 2 then y + 1 else y, m, d))"

definition days_from_civil :: "int \<Rightarrow> int \<Rightarrow> int \<Rightarrow> int" where
  "days_from_civil y0 m d =
     (let y = (if m \<le> 2 then y0 - 1 else y0);
          era = y div 400;
          yoe = y - era * 400;
          doy = (153 * (if m > 2 then m - 3 else m + 9) + 2) div 5 + d - 1;
          doe = yoe * 365 + yoe div 4 - yoe div 100 + doy
      in era * 146097 + doe - 719468)"

definition pad :: "nat \<Rightarrow> int \<Rightarrow> string" where
  "pad w n = (let ds = showNat (nat n) in replicate (w - length ds) (CHR ''0'') @ ds)"

definition write_iso :: "int \<Rightarrow> string" where
  "write_iso t =
     (let ms = t mod 86400000 in
      case civil_from_days (t div 86400000) of
        (y, m, d) \<Rightarrow>
          pad 4 y @ ''-'' @ pad 2 m @ ''-'' @ pad 2 d @ ''T'' @ pad 2 (ms div 3600000) @ '':''
          @ pad 2 (ms div 60000 mod 60) @ '':'' @ pad 2 (ms div 1000 mod 60) @ ''.''
          @ pad 3 (ms mod 1000) @ ''Z'')"

definition read_iso :: "string \<Rightarrow> int option" where
  "read_iso s =
     (if length s = 24 \<and> s ! 4 = CHR ''-'' \<and> s ! 7 = CHR ''-'' \<and> s ! 10 = CHR ''T''
         \<and> s ! 13 = CHR '':'' \<and> s ! 16 = CHR '':'' \<and> s ! 19 = CHR ''.'' \<and> s ! 23 = CHR ''Z''
      then
        (case (digits_val (take 4 s), digits_val (take 2 (drop 5 s)), digits_val (take 2 (drop 8 s)),
               digits_val (take 2 (drop 11 s)), digits_val (take 2 (drop 14 s)),
               digits_val (take 2 (drop 17 s)), digits_val (take 3 (drop 20 s))) of
           (Some y, Some m, Some d, Some h, Some mi, Some sec, Some ms) \<Rightarrow>
             (if civil_from_days (days_from_civil (int y) (int m) (int d)) = (int y, int m, int d)
                 \<and> h < 24 \<and> mi < 60 \<and> sec < 60
              then Some (days_from_civil (int y) (int m) (int d) * 86400000
                         + int h * 3600000 + int mi * 60000 + int sec * 1000 + int ms)
              else None)
         | _ \<Rightarrow> None)
      else None)"

definition date_value :: "jsval \<Rightarrow> int option" where
  "date_value v =
     (case v of
        JStr s \<Rightarrow> read_iso s
      | JNum n \<Rightarrow> (if abs n \<le> 8640000000000000 then Some n else None)
      | JNull \<Rightarrow> Some 0
      | JBool b \<Rightarrow> Some (if b then 1 else 0)
      | JDate d \<Rightarrow> d
      | _ \<Rightarrow> None)"

definition reference_platform :: platform where
  "reference_platform =
     \<lparr>JSON_text = write_json, JSON_tree = read_json, toISOString = write_iso,
      Date_value = date_value\<rparr>"

section \<open>Example stores\<close>

text \<open>
  A store of numbers, as \<open>createStore({ key: 'k', schema: z.number(), version: 2,
  migrate, defaultValue: 7, onValidationError })\<close> with the default serializer, and
  backends that hold a given text under \<open>k\<close> at time 1000.
\<close>

definition number_schema :: SchemaValidator where
  "number_schema =
     \<lparr>parse = (\<lambda>d. case d of JNum n \<Rightarrow> Inr d | _ \<Rightarrow> Inl (UserError ''Expected number'')),
      safeParse = Some (\<lambda>d. case d of
          JNum n \<Rightarrow> Inr \<lparr>success = True, data = d, error = None\<rparr>
        | _ \<Rightarrow> Inr \<lparr>success = False, data = JUndefined,
                      error = Some (UserError ''Expected number'')\<rparr>)\<rparr>"

definition add_100 :: "jsval \<Rightarrow> error + jsval" where
  "add_100 old = (case old of JNum n \<Rightarrow> Inr (JNum (n + 100)) | _ \<Rightarrow> Inl (UserError ''Cannot migrate''))"

definition log_error :: "error option \<Rightarrow> string \<Rightarrow> error + unit" where
  "log_error e k = Inr ()"

definition rethrow_error :: "error option \<Rightarrow> string \<Rightarrow> error + unit" where
  "rethrow_error e k = Inl (UserError ''rethrown'')"

definition example_store :: StoreOptions where
  "example_store =
     \<lparr>key = ''k'', schema = number_schema, version_opt = Some 2, migrate = Some add_100,
      ttl = None, defaultValue = JNum 7, onValidationError = Some log_error,
      serializer = defaultSerializer reference_platform\<rparr>"

definition accept_all :: "string \<Rightarrow> string \<Rightarrow> bool" where
  "accept_all k v = True"

definition empty_backend :: store_state where
  "empty_backend =
     \<lparr>storage = Map.empty, accepts = accept_all, now = 1000, updateCallbacks = [], trace = []\<rparr>"

definition backend :: "string \<Rightarrow> store_state" where
  "backend text = empty_backend\<lparr>storage := [''k'' \<mapsto> text]\<rparr>"

definition nullable_number_schema :: SchemaValidator where
  "nullable_number_schema =
     \<lparr>parse = (\<lambda>d. case d of JNum n \<Rightarrow> Inr d | JNull \<Rightarrow> Inr d
                    | _ \<Rightarrow> Inl (UserError ''Expected number or null'')),
      safeParse = Some (\<lambda>d. case d of
          JNum n \<Rightarrow> Inr \<lparr>success = True, data = d, error = None\<rparr>
        | JNull \<Rightarrow> Inr \<lparr>success = True, data = d, error = None\<rparr>
        | _ \<Rightarrow> Inr \<lparr>success = False, data = JUndefined,
                      error = Some (UserError ''Expected number or null'')\<rparr>)\<rparr>"





definition reject_all :: "string \<Rightarrow> string \<Rightarrow> bool" where
  "reject_all k v = False"



section \<open>Properties of the store\<close>

subsection \<open>What each step leaves alone, and what it reports\<close>

lemma get_absent:
  "storage s (key cfg) = None \<Longrightarrow> get cfg s = (Inr (default_or_null cfg), s)"
  by (simp add: get_def get_try_def)

lemma callbacks_of_append: "callbacks_of (xs @ ys) = callbacks_of xs @ callbacks_of ys"
  by (induction xs rule: callbacks_of.induct) auto






lemma report_returns:
  "\<forall>h. onValidationError cfg = Some h \<longrightarrow> h e (key cfg) = Inr () \<Longrightarrow> fst (report cfg e s) = Inr ()"
  by (auto simp: report_def split: option.splits)





lemma validate_returns:
  assumes "\<forall>h e. onValidationError cfg = Some h \<longrightarrow> h e (key cfg) = Inr ()"
  shows "\<exists>v. fst (validate cfg d s) = Inr v"
proof -
  have r: "\<And>e s. fst (report cfg e s) = Inr ()"
    using assms by (auto simp: report_def split: option.splits)
  have "\<And>e s s' e'. report cfg e s \<noteq> (Inl e', s')"
    using r by (metis fst_conv sum.distinct(1))
  then show ?thesis
    by (auto simp: validate_def validate_try_def split: sum.splits prod.splits option.splits)
qed






lemma notified_everyone:
  "callbacks_of (trace s') = callbacks_of (trace s) @ xs \<Longrightarrow> notified s s' = xs"
  by (simp add: notified_def)


lemma emit_quiet: "quiet s (emit (ConsoleError m) s)"
  by (simp add: quiet_def emit_def callbacks_of_append)












lemma get_catch:
  assumes "\<forall>h e. onValidationError cfg = Some h \<longrightarrow> h e (key cfg) = Inr ()"
    and "fst (get_try cfg s) = Inl e"
  shows "fst (get cfg s) = Inr (default_or_null cfg)"
    and "storage (snd (get cfg s)) = storage (snd (get_try cfg s))"
    and "onValidationError cfg \<noteq> None \<Longrightarrow> trace (snd (get cfg s))
      = trace (snd (get_try cfg s)) @ [ConsoleError ''Failed to get value'',
                                       OnValidationError (Some e) (key cfg)]"
    and "onValidationError cfg = None \<Longrightarrow> trace (snd (get cfg s))
      = trace (snd (get_try cfg s)) @ [ConsoleError ''Failed to get value'']"
  using assms
  by (cases "get_try cfg s"; cases "onValidationError cfg";
      auto simp: get_def report_def emit_def)+











subsection \<open>Text that does not decode\<close>

text \<open>
  C1, as stated, fails: with the text \<open>invalid-json\<close> under the key, \<open>get\<close> returns
  the default and the text is still under the key afterwards. With an error callback
  that throws, \<open>get\<close> throws what the callback threw.
\<close>

theorem C1_counterexample:
  \<open>deserialize (serializer example_store) ''invalid-json'' = Inl (Error ''Failed to deserialize data'')
   \<and> storage (backend ''invalid-json'') (key example_store) = Some ''invalid-json''
   \<and> fst (get example_store (backend ''invalid-json'')) = Inr (JNum 7)
   \<and> storage (snd (get example_store (backend ''invalid-json''))) (key example_store)
       = Some ''invalid-json''
   \<and> fst (get (example_store\<lparr>onValidationError := Some rethrow_error\<rparr>)
        (backend ''invalid-json'')) = Inl (UserError ''rethrown'')\<close>
  by code_simp

text \<open>
  C1, amended. If the backend holds a text under the store's key on which the
  serializer's \<open>deserialize\<close> fails, and the error callback (if one is configured)
  returns, then \<open>get\<close> returns the configured default (or \<open>null\<close>) and leaves the
  backend as it was: the text is read as absent, not deleted.
\<close>

theorem C1_undecodable_text_reads_as_absent:
  assumes "storage s (key cfg) = Some raw"
    and "deserialize (serializer cfg) raw = Inl e"
    and "\<forall>h. onValidationError cfg = Some h \<longrightarrow> h (Some e) (key cfg) = Inr ()"
  shows "fst (get cfg s) = Inr (default_or_null cfg) \<and> storage (snd (get cfg s)) = storage s"
proof (cases "raw = []")
  case True
  with assms(1) show ?thesis
    by (simp add: get_def get_try_def)
next
  case False
  with assms have t: "get_try cfg s = (Inl e, s)"
    by (simp add: get_try_def readStoredData_def)
  show ?thesis
  proof (cases "onValidationError cfg")
    case None
    with t show ?thesis
      by (simp add: get_def report_def emit_def)
  next
    case (Some h)
    with assms(3) have "h (Some e) (key cfg) = Inr ()" by simp
    with t Some show ?thesis
      by (simp add: get_def report_def emit_def)
  qed
qed

theorem C1_witness:
  \<open>storage (backend ''invalid-json'') (key example_store) = Some ''invalid-json''
   \<and> deserialize (serializer example_store) ''invalid-json'' = Inl (Error ''Failed to deserialize data'')
   \<and> onValidationError example_store = Some log_error
   \<and> fst (get example_store (backend ''invalid-json'')) = Inr (JNum 7)
   \<and> storage (snd (get example_store (backend ''invalid-json''))) = storage (backend ''invalid-json'')\<close>
proof -
  have h1: "storage (backend ''invalid-json'') (key example_store) = Some ''invalid-json''"
    by code_simp
  have h2: "deserialize (serializer example_store) ''invalid-json''
      = Inl (Error ''Failed to deserialize data'')"
    by code_simp
  have h3: "onValidationError example_store = Some log_error"
    by (simp add: example_store_def)
  have h4: "\<forall>h. onValidationError example_store = Some h
      \<longrightarrow> h (Some (Error ''Failed to deserialize data'')) (key example_store) = Inr ()"
    by (simp add: h3 log_error_def)
  have d: "default_or_null example_store = JNum 7"
    by (simp add: default_or_null_def example_store_def)
  show ?thesis
    using C1_undecodable_text_reads_as_absent [OF h1 h2 h4] h1 h2 h3 d by simp
qed

subsection \<open>Migration gating\<close>




subsection \<open>A record newer than the store\<close>

text \<open>
  C3. The code at a record newer than the store: version 3 under a store at version 2.
  The value is returned unmigrated, and the record is rewritten with version 2.
\<close>

theorem C3_newer_record_is_rewritten:
  \<open>readStoredData example_store ''{"value":1,"version":3}''
     = Inr \<lparr>value = JNum 1, version = Some 3, timestamp = None, expiresAt = None\<rparr>
   \<and> fst (get example_store (backend ''{"value":1,"version":3}'')) = Inr (JNum 1)
   \<and> migrate_calls (trace (snd (get example_store (backend ''{"value":1,"version":3}'')))) = []
   \<and> storage (snd (get example_store (backend ''{"value":1,"version":3}''))) ''k''
       = Some ''{"__root":{"value":1,"version":2,"timestamp":1000}}''\<close>
  by code_simp

subsection \<open>Expiration\<close>




subsection \<open>Writing\<close>




subsection \<open>Reading never throws\<close>

text \<open>
  C7, as stated, fails: \<open>get\<close> calls the error callback from its own \<open>catch\<close>, so a
  callback that throws makes \<open>get\<close> throw.
\<close>

theorem C7_counterexample:
  \<open>onValidationError (example_store\<lparr>onValidationError := Some rethrow_error\<rparr>) = Some rethrow_error
   \<and> storage (backend ''invalid-json'') ''k'' = Some ''invalid-json''
   \<and> fst (get (example_store\<lparr>onValidationError := Some rethrow_error\<rparr>) (backend ''invalid-json''))
       = Inl (UserError ''rethrown'')\<close>
proof -
  have "onValidationError (example_store\<lparr>onValidationError := Some rethrow_error\<rparr>)
      = Some rethrow_error"
    by simp
  moreover have "storage (backend ''invalid-json'') ''k'' = Some ''invalid-json''"
    by code_simp
  moreover have "fst (get (example_store\<lparr>onValidationError := Some rethrow_error\<rparr>)
      (backend ''invalid-json'')) = Inl (UserError ''rethrown'')"
    by code_simp
  ultimately show ?thesis by simp
qed

text \<open>
  C7, amended. If the error callback (when one is configured) returns, \<open>get\<close> never
  throws: whatever is thrown inside its \<open>try\<close> (by \<open>deserialize\<close>, by reading the
  envelope, by the rewrite after a migration) is logged, passed to the error callback,
  and \<open>get\<close> returns the configured default (or \<open>null\<close>).
\<close>

theorem C7_get_returns_when_callback_returns:
  assumes "\<forall>h e. onValidationError cfg = Some h \<longrightarrow> h e (key cfg) = Inr ()"
  shows "(\<exists>v. fst (get cfg s) = Inr v)
    \<and> (fst (get_try cfg s) = Inl e \<longrightarrow>
         fst (get cfg s) = Inr (default_or_null cfg)
         \<and> (onValidationError cfg \<noteq> None \<longrightarrow>
              trace (snd (get cfg s))
                = trace (snd (get_try cfg s)) @ [ConsoleError ''Failed to get value'',
                                                 OnValidationError (Some e) (key cfg)]))"
proof -
  have "\<exists>v. fst (get cfg s) = Inr v"
  proof (cases "fst (get_try cfg s)")
    case (Inl a)
    from get_catch(1) [OF assms this] show ?thesis by blast
  next
    case (Inr v)
    then show ?thesis by (cases "get_try cfg s") (auto simp: get_def)
  qed
  then show ?thesis using get_catch [OF assms] by blast
qed

theorem C7_witness:
  \<open>onValidationError example_store = Some log_error
   \<and> fst (get_try example_store ((backend ''{"value":1,"version":1}'')\<lparr>accepts := reject_all\<rparr>))
       = Inl QuotaExceededError
   \<and> fst (get example_store ((backend ''{"value":1,"version":1}'')\<lparr>accepts := reject_all\<rparr>))
       = Inr (JNum 7)
   \<and> trace (snd (get example_store ((backend ''{"value":1,"version":1}'')\<lparr>accepts := reject_all\<rparr>)))
       = [Migrate (JNum 1), ConsoleError ''Failed to set value'',
          ConsoleError ''Failed to get value'', OnValidationError (Some QuotaExceededError) ''k'']\<close>
proof -
  let ?s = \<open>(backend ''{"value":1,"version":1}'')\<lparr>accepts := reject_all\<rparr>\<close>
  have k: "key example_store = ''k''" by (simp add: example_store_def)
  have d: "default_or_null example_store = JNum 7" by code_simp
  have c: "onValidationError example_store = Some log_error" by (simp add: example_store_def)
  have h: "\<forall>h e. onValidationError example_store = Some h \<longrightarrow> h e (key example_store) = Inr ()"
    by (simp add: c log_error_def)
  have t: "fst (get_try example_store ?s) = Inl QuotaExceededError" by code_simp
  have tr: "trace (snd (get_try example_store ?s))
      = [Migrate (JNum 1), ConsoleError ''Failed to set value'']"
    by code_simp
  from C7_get_returns_when_callback_returns [OF h, of ?s QuotaExceededError] t c
  have "fst (get example_store ?s) = Inr (default_or_null example_store)
    \<and> trace (snd (get example_store ?s))
        = trace (snd (get_try example_store ?s)) @ [ConsoleError ''Failed to get value'',
            OnValidationError (Some QuotaExceededError) (key example_store)]"
    by simp
  then show ?thesis using c t by (simp add: d k tr)
qed

subsection \<open>Events from other tabs\<close>




subsection \<open>Subscribers that throw\<close>



subsection \<open>The default value and \<open>has\<close>\<close>

text \<open>
  C10, as stated, fails: \<open>null\<close> is a default value a store of a nullable type can be
  configured with, and with it and nothing stored \<open>get\<close> returns \<open>null\<close> and \<open>has\<close>
  returns false.
\<close>

theorem C10_counterexample:
  "storage empty_backend (key (example_store\<lparr>schema := nullable_number_schema, defaultValue := JNull\<rparr>))
     = None
   \<and> defaultValue (example_store\<lparr>schema := nullable_number_schema, defaultValue := JNull\<rparr>) = JNull
   \<and> fst (get (example_store\<lparr>schema := nullable_number_schema, defaultValue := JNull\<rparr>)
        empty_backend) = Inr JNull
   \<and> fst (has (example_store\<lparr>schema := nullable_number_schema, defaultValue := JNull\<rparr>)
        empty_backend) = Inr False"
  by code_simp

text \<open>
  C10, amended. With a default value other than \<open>null\<close> configured and no record stored
  under the key, \<open>get\<close> returns the default and \<open>has\<close> returns true, though nothing
  was ever written; neither changes the state.
\<close>

theorem C10_has_true_on_default:
  assumes "storage s (key cfg) = None"
    and "defaultValue cfg \<noteq> JUndefined" and "defaultValue cfg \<noteq> JNull"
  shows "get cfg s = (Inr (defaultValue cfg), s) \<and> has cfg s = (Inr True, s)"
  using assms by (simp add: has_def get_absent default_or_null_def)

theorem C10_witness:
  "storage empty_backend (key example_store) = None
   \<and> defaultValue example_store = JNum 7
   \<and> get example_store empty_backend = (Inr (JNum 7), empty_backend)
   \<and> has example_store empty_backend = (Inr True, empty_backend)"
proof -
  have h1: "storage empty_backend (key example_store) = None"
    by (simp add: empty_backend_def)
  have h2: "defaultValue example_store = JNum 7"
    by (simp add: example_store_def)
  show ?thesis
    using C10_has_true_on_default [of empty_backend example_store] h1 h2 by simp
qed

section \<open>Properties of the serializer\<close>


lemma sequence_Inr: "sequence (map (\<lambda>x. Inr (g x)) xs) = Inr (map g xs)"
  by (induction xs) auto






























end
